theory Spec2Isabelle
  imports Main
begin

section \<open>HRMS Lite API: employees and attendance\<close>

text \<open>
  A shallow embedding of \<^verbatim>\<open>src/main.py\<close>: the two tables of the relational store as
  lists of rows, the pydantic schemas with their field validators as functions that
  return an error or the validated value, and every route handler as a function from
  the store to a response and the store after the request.

  Python strings are modelled as \<^typ>\<open>string\<close>; a character stands for the code point
  of the same number, so the model covers the strings over the code points 0 to 255.
\<close>

subsection \<open>Errors and responses\<close>

text \<open>
  \<open>ValueError\<close> is what a field validator raises. When the request body is validated,
  the framework reports it as \<open>RequestValidationError\<close> (status 422); a handler raises
  \<open>HTTPException\<close> with a status code and a detail message; any other exception
  that leaves a handler is unhandled (status 500). A successful response is the status
  code of the route's decorator and the body.
\<close>

datatype error =
    ValueError string
  | IndexError
  | AttributeError
  | RequestValidationError string
  | HTTPException nat string

type_synonym 'a response = "error + nat \<times> 'a"

fun status_code :: "'a response \<Rightarrow> nat" where
  "status_code (Inl (ValueError _)) = 500"
| "status_code (Inl IndexError) = 500"
| "status_code (Inl AttributeError) = 500"
| "status_code (Inl (RequestValidationError _)) = 422"
| "status_code (Inl (HTTPException c _)) = c"
| "status_code (Inr (c, _)) = c"

subsection \<open>The string operations of the validators\<close>

text \<open>\<open>str.isspace\<close> on the code points below 256.\<close>

definition isspace :: "char \<Rightarrow> bool" where
  "isspace c =
     (let n = (of_char c :: nat)
      in (9 \<le> n \<and> n \<le> 13) \<or> (28 \<le> n \<and> n \<le> 32) \<or> n = 133 \<or> n = 160)"

text \<open>\<open>v.strip()\<close>: leading and trailing whitespace removed.\<close>

definition strip :: "string \<Rightarrow> string" where
  "strip v = rev (dropWhile isspace (rev (dropWhile isspace v)))"

text \<open>\<open>v.lower()\<close>: the upper-case letters below 256 are A to Z and 192 to 222 but 215.\<close>

definition lower_char :: "char \<Rightarrow> char" where
  "lower_char c =
     (let n = (of_char c :: nat)
      in if (65 \<le> n \<and> n \<le> 90) \<or> (192 \<le> n \<and> n \<le> 222 \<and> n \<noteq> 215)
         then char_of (n + 32) else c)"

definition lower :: "string \<Rightarrow> string" where
  "lower v = map lower_char v"

text \<open>
  The pattern of \<open>validate_email\<close>,
  \<^verbatim>\<open>^[a-zA-Z0-9_.+-]+@[a-zA-Z0-9-]+\.[a-zA-Z0-9-.]+$\<close>,
  has three character classes.
\<close>

definition alnum :: "char \<Rightarrow> bool" where
  "alnum c =
     (let n = (of_char c :: nat)
      in (97 \<le> n \<and> n \<le> 122) \<or> (65 \<le> n \<and> n \<le> 90) \<or> (48 \<le> n \<and> n \<le> 57))"

definition local_char :: "char \<Rightarrow> bool" where
  "local_char c = (alnum c \<or> c = CHR ''_'' \<or> c = CHR ''.'' \<or> c = CHR ''+'' \<or> c = CHR ''-'')"

definition label_char :: "char \<Rightarrow> bool" where
  "label_char c = (alnum c \<or> c = CHR ''-'')"

definition suffix_char :: "char \<Rightarrow> bool" where
  "suffix_char c = (alnum c \<or> c = CHR ''-'' \<or> c = CHR ''.'')"

text \<open>
  What the pattern denotes between \<open>^\<close> and \<open>$\<close>: a non-empty local part, \<open>@\<close>, a
  non-empty label, a dot, a non-empty suffix.
\<close>

definition email_language :: "string \<Rightarrow> bool" where
  "email_language v =
     (\<exists>l d r. v = l @ ''@'' @ d @ ''.'' @ r
        \<and> l \<noteq> [] \<and> list_all local_char l
        \<and> d \<noteq> [] \<and> list_all label_char d
        \<and> r \<noteq> [] \<and> list_all suffix_char r)"

text \<open>
  The matcher. Neither \<open>@\<close> nor the dot after the label belongs to the class
  before it, so the greedy match of each class is the only one.
\<close>

definition fullmatch_email :: "string \<Rightarrow> bool" where
  "fullmatch_email v =
     (takeWhile local_char v \<noteq> [] \<and>
      (case dropWhile local_char v of
         [] \<Rightarrow> False
       | c # r2 \<Rightarrow> c = CHR ''@'' \<and> takeWhile label_char r2 \<noteq> [] \<and>
           (case dropWhile label_char r2 of
              [] \<Rightarrow> False
            | d # r4 \<Rightarrow> d = CHR ''.'' \<and> r4 \<noteq> [] \<and> list_all suffix_char r4)))"

text \<open>
  \<open>re.match(pattern, v)\<close>: \<open>$\<close> matches at the end of the string and also just before
  a newline that ends the string.
\<close>

definition re_match_email :: "string \<Rightarrow> bool" where
  "re_match_email v =
     (fullmatch_email v \<or> (v \<noteq> [] \<and> last v = CHR 0x0A \<and> fullmatch_email (butlast v)))"

subsection \<open>Calendar dates\<close>

text \<open>
  \<open>datetime.date\<close> with the two methods the program calls. \<open>fromisoformat\<close> is modelled
  for the format \<open>YYYY-MM-DD\<close> that its documentation and the program's error message
  name: ten characters, ASCII digits, a year from 1 to 9999, a month and a day that
  exist. \<open>isoformat\<close> prints \<open>%04d-%02d-%02d\<close>.
\<close>

record date =
  year :: nat
  month :: nat
  day :: nat

definition is_leap :: "nat \<Rightarrow> bool" where
  "is_leap y = (y mod 4 = 0 \<and> (y mod 100 \<noteq> 0 \<or> y mod 400 = 0))"

definition days_in_month :: "nat \<Rightarrow> nat \<Rightarrow> nat" where
  "days_in_month y m =
     (if m = 2 then (if is_leap y then 29 else 28)
      else if m = 4 \<or> m = 6 \<or> m = 9 \<or> m = 11 then 30 else 31)"

definition valid_date :: "date \<Rightarrow> bool" where
  "valid_date d =
     (1 \<le> year d \<and> year d \<le> 9999 \<and> 1 \<le> month d \<and> month d \<le> 12
      \<and> 1 \<le> day d \<and> day d \<le> days_in_month (year d) (month d))"

definition isdigit :: "char \<Rightarrow> bool" where
  "isdigit c = (48 \<le> (of_char c :: nat) \<and> (of_char c :: nat) \<le> 57)"

definition digit_val :: "char \<Rightarrow> nat" where
  "digit_val c = of_char c - 48"

definition digit_char :: "nat \<Rightarrow> char" where
  "digit_char n = char_of (48 + n)"

definition parse_digits :: "string \<Rightarrow> nat option" where
  "parse_digits v =
     (if v \<noteq> [] \<and> list_all isdigit v
      then Some (foldl (\<lambda>a c. 10 * a + digit_val c) 0 v) else None)"

definition fromisoformat :: "string \<Rightarrow> date option" where
  "fromisoformat v =
     (if length v \<noteq> 10 then None
      else case (parse_digits (take 4 v), parse_digits (take 2 (drop 5 v)),
                 parse_digits (drop 8 v)) of
          (Some y, Some m, Some d) \<Rightarrow>
            (if v ! 4 = CHR ''-'' \<and> v ! 7 = CHR ''-''
                \<and> valid_date \<lparr>year = y, month = m, day = d\<rparr>
             then Some \<lparr>year = y, month = m, day = d\<rparr> else None)
        | _ \<Rightarrow> None)"

fun str_nat :: "nat \<Rightarrow> string" where
  "str_nat n = (if n < 10 then [digit_char n] else str_nat (n div 10) @ [digit_char (n mod 10)])"

declare str_nat.simps [simp del]

definition zfill :: "nat \<Rightarrow> string \<Rightarrow> string" where
  "zfill w v = replicate (w - length v) (CHR ''0'') @ v"

definition isoformat :: "date \<Rightarrow> string" where
  "isoformat d =
     zfill 4 (str_nat (year d)) @ ''-'' @ zfill 2 (str_nat (month d)) @ ''-''
       @ zfill 2 (str_nat (day d))"

subsection \<open>Schemas\<close>

text \<open>
  \<open>EmployeeCreate\<close> and its subclass \<open>Employee\<close> have the same fields and the same
  validators, and so have \<open>AttendanceCreate\<close> and \<open>AttendanceRecord\<close>. Building
  an instance runs the validators of the fields in the order of their declaration;
  the first failure is the error of the model.
\<close>

record EmployeeCreate =
  employee_id :: string
  full_name :: string
  email :: string
  department :: string

type_synonym Employee = EmployeeCreate

definition validate_employee_id :: "string \<Rightarrow> error + string" where
  "validate_employee_id v =
     (let v = strip v
      in if v = [] then Inl (ValueError ''Employee ID is required'') else Inr v)"

definition validate_full_name :: "string \<Rightarrow> error + string" where
  "validate_full_name v =
     (let v = strip v
      in if v = [] then Inl (ValueError ''Full name is required'') else Inr v)"

definition validate_email :: "string \<Rightarrow> error + string" where
  "validate_email v =
     (let v = lower (strip v)
      in if \<not> re_match_email v then Inl (ValueError ''Invalid email format'') else Inr v)"

definition validate_department :: "string \<Rightarrow> error + string" where
  "validate_department v =
     (let v = strip v
      in if v = [] then Inl (ValueError ''Department is required'') else Inr v)"

definition new_Employee :: "string \<Rightarrow> string \<Rightarrow> string \<Rightarrow> string \<Rightarrow> error + Employee" where
  "new_Employee eid name mail dept =
     (case validate_employee_id eid of Inl e \<Rightarrow> Inl e | Inr eid' \<Rightarrow>
     (case validate_full_name name of Inl e \<Rightarrow> Inl e | Inr name' \<Rightarrow>
     (case validate_email mail of Inl e \<Rightarrow> Inl e | Inr mail' \<Rightarrow>
     (case validate_department dept of Inl e \<Rightarrow> Inl e | Inr dept' \<Rightarrow>
        Inr \<lparr>employee_id = eid', full_name = name', email = mail', department = dept'\<rparr>))))"

record AttendanceCreate =
  att_employee_id :: string
  att_date :: string
  att_status :: string

type_synonym AttendanceRecord = AttendanceCreate

definition att_validate_employee_id :: "string \<Rightarrow> error + string" where
  "att_validate_employee_id v =
     (if strip v = [] then Inl (ValueError ''Employee ID is required'') else Inr (strip v))"

definition validate_date :: "string \<Rightarrow> error + string" where
  "validate_date v =
     (case fromisoformat v of
        None \<Rightarrow> Inl (ValueError ''Invalid date format. Use YYYY-MM-DD'')
      | Some _ \<Rightarrow> Inr v)"

text \<open>The field \<open>status\<close> has the type \<open>Literal["Present", "Absent"]\<close>.\<close>

definition validate_status :: "string \<Rightarrow> error + string" where
  "validate_status v =
     (if v = ''Present'' \<or> v = ''Absent'' then Inr v
      else Inl (ValueError ''Input should be Present or Absent''))"

definition new_AttendanceRecord :: "string \<Rightarrow> string \<Rightarrow> string \<Rightarrow> error + AttendanceRecord" where
  "new_AttendanceRecord eid d st =
     (case att_validate_employee_id eid of Inl e \<Rightarrow> Inl e | Inr eid' \<Rightarrow>
     (case validate_date d of Inl e \<Rightarrow> Inl e | Inr d' \<Rightarrow>
     (case validate_status st of Inl e \<Rightarrow> Inl e | Inr st' \<Rightarrow>
        Inr \<lparr>att_employee_id = eid', att_date = d', att_status = st'\<rparr>)))"

subsection \<open>The store\<close>

text \<open>
  The tables \<open>employees\<close> and \<open>attendance\<close> are lists of rows in storage order.
  Each table has the sequence of its integer primary key, whose next value is the key
  of the next row inserted. The column \<open>attendance.employee_id\<close> holds the primary
  key of the owning employee, not the external identifier.
\<close>

record EmployeeModel =
  e_id :: nat
  e_employee_id :: string
  e_full_name :: string
  e_email :: string
  e_department :: string

record AttendanceModel =
  a_id :: nat
  a_employee_id :: nat
  a_date :: date
  a_status :: string

record database =
  employees :: "EmployeeModel list"
  attendance :: "AttendanceModel list"
  employees_seq :: nat
  attendance_seq :: nat

definition init_database :: database where
  "init_database = \<lparr>employees = [], attendance = [], employees_seq = 1, attendance_seq = 1\<rparr>"

subsection \<open>Route handlers\<close>

definition quoted :: "string \<Rightarrow> string" where
  "quoted v = CHR 0x27 # v @ [CHR 0x27]"

fun traverse :: "('a \<Rightarrow> error + 'b) \<Rightarrow> 'a list \<Rightarrow> error + 'b list" where
  "traverse f [] = Inr []"
| "traverse f (x # xs) =
     (case f x of
        Inl e \<Rightarrow> Inl e
      | Inr y \<Rightarrow> (case traverse f xs of Inl e \<Rightarrow> Inl e | Inr ys \<Rightarrow> Inr (y # ys)))"

definition root :: "(string \<times> string) response" where
  "root = Inr (200, (''HRMS Lite API is running'', ''1.0.0''))"

definition Employee_of :: "EmployeeModel \<Rightarrow> error + Employee" where
  "Employee_of e = new_Employee (e_employee_id e) (e_full_name e) (e_email e) (e_department e)"

definition list_employees :: "database \<Rightarrow> Employee list response" where
  "list_employees db =
     (case traverse Employee_of (employees db) of
        Inl e \<Rightarrow> Inl e
      | Inr result \<Rightarrow> Inr (200, result))"

definition create_employee :: "EmployeeCreate \<Rightarrow> database \<Rightarrow> Employee response \<times> database" where
  "create_employee data db =
     (case find (\<lambda>e. e_employee_id e = employee_id data) (employees db) of
        Some existing_by_id \<Rightarrow>
          (Inl (HTTPException 409
             (''Employee with ID '' @ quoted (employee_id data) @ '' already exists'')), db)
      | None \<Rightarrow>
     (case find (\<lambda>e. e_email e = email data) (employees db) of
        Some existing_by_email \<Rightarrow>
          (Inl (HTTPException 409
             (''Email '' @ quoted (email data) @ '' is already registered'')), db)
      | None \<Rightarrow>
          (let employee = \<lparr>e_id = employees_seq db, e_employee_id = employee_id data,
                 e_full_name = full_name data, e_email = email data,
                 e_department = department data\<rparr>;
               db' = db\<lparr>employees := employees db @ [employee],
                        employees_seq := Suc (employees_seq db)\<rparr>
           in (case Employee_of employee of
                 Inl e \<Rightarrow> (Inl e, db')
               | Inr body \<Rightarrow> (Inr (201, body), db')))))"

definition get_employee :: "string \<Rightarrow> database \<Rightarrow> Employee response" where
  "get_employee eid db =
     (case find (\<lambda>e. e_employee_id e = eid) (employees db) of
        None \<Rightarrow> Inl (HTTPException 404 (''Employee '' @ quoted eid @ '' not found''))
      | Some employee \<Rightarrow>
          (case Employee_of employee of
             Inl e \<Rightarrow> Inl e
           | Inr body \<Rightarrow> Inr (200, body)))"

text \<open>
  \<open>db.delete(employee)\<close>: the relationship \<open>attendance_records\<close> cascades the deletion
  to the attendance rows whose foreign key is the employee's primary key.
\<close>

definition delete_employee :: "string \<Rightarrow> database \<Rightarrow> string response \<times> database" where
  "delete_employee eid db =
     (case find (\<lambda>e. e_employee_id e = eid) (employees db) of
        None \<Rightarrow> (Inl (HTTPException 404 (''Employee '' @ quoted eid @ '' not found'')), db)
      | Some employee \<Rightarrow>
          (Inr (200, ''Employee '' @ quoted eid @ '' deleted successfully''),
           db\<lparr>attendance := filter (\<lambda>r. a_employee_id r \<noteq> e_id employee) (attendance db),
              employees := filter (\<lambda>e. e_id e \<noteq> e_id employee) (employees db)\<rparr>))"

text \<open>\<open>date.split("T")\<close> and the subscript \<open>[0]\<close>, which raises on an empty list.\<close>

fun split :: "char \<Rightarrow> string \<Rightarrow> string list" where
  "split sep [] = [[]]"
| "split sep (c # cs) =
     (if c = sep then [] # split sep cs
      else (case split sep cs of [] \<Rightarrow> [[c]] | w # ws \<Rightarrow> (c # w) # ws))"

definition getitem0 :: "'a list \<Rightarrow> error + 'a" where
  "getitem0 xs = (case xs of [] \<Rightarrow> Inl IndexError | x # _ \<Rightarrow> Inr x)"

text \<open>
  \<open>db.query(AttendanceModel).join(EmployeeModel)\<close>: the attendance rows with an
  employee row whose primary key is their foreign key. A later \<open>filter\<close> on a column
  of \<open>EmployeeModel\<close> is a condition on that employee row.
\<close>

definition join :: "database \<Rightarrow> (AttendanceModel \<times> EmployeeModel) list" where
  "join db =
     concat (map (\<lambda>r. map (Pair r) (filter (\<lambda>e. e_id e = a_employee_id r) (employees db)))
       (attendance db))"

text \<open>\<open>rec.employee\<close>: the employee row with the primary key \<open>rec.employee_id\<close>.\<close>

definition AttendanceRecord_of :: "database \<Rightarrow> AttendanceModel \<Rightarrow> error + AttendanceRecord" where
  "AttendanceRecord_of db rec =
     (case find (\<lambda>e. e_id e = a_employee_id rec) (employees db) of
        None \<Rightarrow> Inl AttributeError
      | Some employee \<Rightarrow>
          new_AttendanceRecord (e_employee_id employee) (isoformat (a_date rec)) (a_status rec))"

text \<open>
  The query parameters are optional strings; \<open>if employee_id:\<close> and \<open>if date:\<close> hold
  for a string that is given and not empty. The branch of \<open>date\<close> computes
  \<open>date.split("T")[0]\<close> under \<open>try\<close>, turns any exception into the error 400, and
  leaves the query as it is.
\<close>

definition list_attendance ::
  "string option \<Rightarrow> string option \<Rightarrow> database \<Rightarrow> AttendanceRecord list response" where
  "list_attendance emp_id date db =
     (let query = join db;
          query = (case emp_id of
                     None \<Rightarrow> query
                   | Some eid \<Rightarrow>
                       if eid \<noteq> [] then filter (\<lambda>(r, e). e_employee_id e = eid) query
                       else query);
          parsed = (case date of
                      None \<Rightarrow> Inr None
                    | Some d \<Rightarrow>
                        if d \<noteq> [] then
                          (case getitem0 (split (CHR ''T'') d) of
                             Inl e \<Rightarrow>
                               Inl (HTTPException 400 ''Invalid date format. Use YYYY-MM-DD'')
                           | Inr date_obj \<Rightarrow> Inr (Some date_obj))
                        else Inr None)
      in (case parsed of
            Inl e \<Rightarrow> Inl e
          | Inr date_parsed \<Rightarrow>
              (case traverse (AttendanceRecord_of db) (map fst query) of
                 Inl e \<Rightarrow> Inl e
               | Inr result \<Rightarrow> Inr (200, result))))"

text \<open>
  \<open>mark_attendance\<close>: the employee by external identifier, then the attendance row
  of that employee and date. An existing row is updated by its primary key; a new row
  takes the next value of the sequence. \<open>db.refresh(record)\<close> reads back the row just
  written.
\<close>

definition mark_attendance ::
  "AttendanceCreate \<Rightarrow> database \<Rightarrow> AttendanceRecord response \<times> database" where
  "mark_attendance data db =
     (case find (\<lambda>e. e_employee_id e = att_employee_id data) (employees db) of
        None \<Rightarrow>
          (Inl (HTTPException 404
             (''Employee '' @ quoted (att_employee_id data) @ '' not found'')), db)
      | Some employee \<Rightarrow>
     (case fromisoformat (att_date data) of
        None \<Rightarrow> (Inl (ValueError ''Invalid isoformat string''), db)
      | Some attendance_date \<Rightarrow>
          (let (record, db') =
                 (case find (\<lambda>r. a_employee_id r = e_id employee \<and> a_date r = attendance_date)
                         (attendance db) of
                    Some record \<Rightarrow>
                      (record\<lparr>a_status := att_status data\<rparr>,
                       db\<lparr>attendance :=
                            map (\<lambda>r. if a_id r = a_id record
                                     then r\<lparr>a_status := att_status data\<rparr> else r)
                              (attendance db)\<rparr>)
                  | None \<Rightarrow>
                      (let record = \<lparr>a_id = attendance_seq db, a_employee_id = e_id employee,
                             a_date = attendance_date, a_status = att_status data\<rparr>
                       in (record,
                           db\<lparr>attendance := attendance db @ [record],
                              attendance_seq := Suc (attendance_seq db)\<rparr>)))
           in (case new_AttendanceRecord (e_employee_id employee) (isoformat (a_date record))
                      (a_status record) of
                 Inl e \<Rightarrow> (Inl e, db')
               | Inr body \<Rightarrow> (Inr (201, body), db')))))"

subsection \<open>Requests\<close>

text \<open>
  A request body is validated into its schema before the handler runs; a failure is
  the response 422 and the handler is not called.
\<close>

definition request_error :: "error \<Rightarrow> error" where
  "request_error e = (case e of ValueError msg \<Rightarrow> RequestValidationError msg | _ \<Rightarrow> e)"

definition post_employees ::
  "string \<Rightarrow> string \<Rightarrow> string \<Rightarrow> string \<Rightarrow> database \<Rightarrow> Employee response \<times> database" where
  "post_employees eid name mail dept db =
     (case new_Employee eid name mail dept of
        Inl e \<Rightarrow> (Inl (request_error e), db)
      | Inr data \<Rightarrow> create_employee data db)"

definition post_attendance ::
  "string \<Rightarrow> string \<Rightarrow> string \<Rightarrow> database \<Rightarrow> AttendanceRecord response \<times> database" where
  "post_attendance eid d st db =
     (case new_AttendanceRecord eid d st of
        Inl e \<Rightarrow> (Inl (request_error e), db)
      | Inr data \<Rightarrow> mark_attendance data db)"

datatype request =
    GetRoot
  | ListEmployees
  | CreateEmployee string string string string
  | GetEmployee string
  | DeleteEmployee string
  | ListAttendance "string option" "string option"
  | MarkAttendance string string string

text \<open>The store after a request. The four \<open>GET\<close> routes do not write.\<close>

fun handle :: "request \<Rightarrow> database \<Rightarrow> database" where
  "handle GetRoot db = db"
| "handle ListEmployees db = db"
| "handle (CreateEmployee eid name mail dept) db = snd (post_employees eid name mail dept db)"
| "handle (GetEmployee eid) db = db"
| "handle (DeleteEmployee eid) db = snd (delete_employee eid db)"
| "handle (ListAttendance eid d) db = db"
| "handle (MarkAttendance eid d st) db = snd (post_attendance eid d st db)"

text \<open>The reachable stores: the empty store and what any request makes of a reachable one.\<close>

inductive reachable :: "database \<Rightarrow> bool" where
  init: "reachable init_database"
| step: "reachable db \<Longrightarrow> reachable (handle req db)"

subsection \<open>A store to compute on\<close>

text \<open>One employee, \<open>E1\<close>, present on 1 January 2024 and absent on 2 January 2024.\<close>

definition example_database :: database where
  "example_database =
     \<lparr>employees =
        [\<lparr>e_id = 1, e_employee_id = ''E1'', e_full_name = ''Ann Lee'',
          e_email = ''ann@x.com'', e_department = ''Eng''\<rparr>],
      attendance =
        [\<lparr>a_id = 1, a_employee_id = 1, a_date = \<lparr>year = 2024, month = 1, day = 1\<rparr>,
          a_status = ''Present''\<rparr>,
         \<lparr>a_id = 2, a_employee_id = 1, a_date = \<lparr>year = 2024, month = 1, day = 2\<rparr>,
          a_status = ''Absent''\<rparr>],
      employees_seq = 2, attendance_seq = 3\<rparr>"

section \<open>Properties\<close>

subsection \<open>Trimming and lower-casing\<close>

lemma last_dropWhile_nonempty:
  "dropWhile P xs \<noteq> [] \<Longrightarrow> last (dropWhile P xs) = last xs"
  by (induction xs) (auto split: if_splits)

text \<open>A string that neither starts nor ends with whitespace is its own \<open>strip\<close>.\<close>

lemma strip_fixed:
  assumes "v = [] \<or> (\<not> isspace (hd v) \<and> \<not> isspace (last v))"
  shows "strip v = v"
proof (cases "v = []")
  case True
  then show ?thesis by (simp add: strip_def)
next
  case False
  with assms have h: "\<not> isspace (hd v)" and l: "\<not> isspace (last v)" by auto
  from False h have "dropWhile isspace v = v" by (cases v) simp_all
  moreover from False l have "dropWhile isspace (rev v) = rev v"
    by (cases "rev v") (simp_all add: last_rev [symmetric] del: last_rev)
  ultimately show ?thesis by (simp add: strip_def)
qed

lemma strip_ends:
  assumes "strip v \<noteq> []"
  shows "\<not> isspace (hd (strip v)) \<and> \<not> isspace (last (strip v))"
proof -
  define w where "w = dropWhile isspace v"
  define u where "u = dropWhile isspace (rev w)"
  have sv: "strip v = rev u" by (simp add: strip_def u_def w_def)
  with assms have u: "u \<noteq> []" by simp
  then have w: "w \<noteq> []" by (auto simp: u_def)
  from u have "\<not> isspace (hd u)" unfolding u_def by (rule hd_dropWhile)
  then have a: "\<not> isspace (last (strip v))" using u by (simp add: sv last_rev)
  from u have "last u = last (rev w)" unfolding u_def by (rule last_dropWhile_nonempty)
  also have "\<dots> = hd w" using w by (simp add: last_rev)
  finally have "hd (strip v) = hd w" using u by (simp add: sv hd_rev)
  moreover from w have "\<not> isspace (hd w)" unfolding w_def by (rule hd_dropWhile)
  ultimately show ?thesis using a by simp
qed

lemma strip_idem: "strip (strip v) = strip v"
  using strip_ends [of v] by (intro strip_fixed) blast

lemma isspace_lower_char: "isspace (lower_char c) = isspace c"
  by (auto simp: isspace_def lower_char_def Let_def)

lemma lower_char_idem: "lower_char (lower_char c) = lower_char c"
  by (auto simp: lower_char_def Let_def)

lemma lower_idem: "lower (lower v) = lower v"
  by (simp add: lower_def lower_char_idem)

lemma dropWhile_isspace_lower:
  "dropWhile isspace (map lower_char v) = map lower_char (dropWhile isspace v)"
  by (induction v) (simp_all add: isspace_lower_char)

lemma strip_lower: "strip (lower v) = lower (strip v)"
  by (simp add: strip_def lower_def rev_map dropWhile_isspace_lower)

subsection \<open>The validators accept what they return\<close>

lemma validate_employee_id_idem:
  "validate_employee_id v = Inr w \<Longrightarrow> validate_employee_id w = Inr w"
  by (auto simp: validate_employee_id_def Let_def strip_idem split: if_splits)

lemma validate_full_name_idem:
  "validate_full_name v = Inr w \<Longrightarrow> validate_full_name w = Inr w"
  by (auto simp: validate_full_name_def Let_def strip_idem split: if_splits)

lemma validate_department_idem:
  "validate_department v = Inr w \<Longrightarrow> validate_department w = Inr w"
  by (auto simp: validate_department_def Let_def strip_idem split: if_splits)

lemma validate_email_idem:
  "validate_email v = Inr w \<Longrightarrow> validate_email w = Inr w"
  by (auto simp: validate_email_def Let_def strip_lower strip_idem lower_idem split: if_splits)

lemma att_validate_employee_id_idem:
  "att_validate_employee_id v = Inr w \<Longrightarrow> att_validate_employee_id w = Inr w"
  by (auto simp: att_validate_employee_id_def strip_idem split: if_splits)

lemma new_Employee_Inr:
  "new_Employee eid name mail dept = Inr data \<longleftrightarrow>
     validate_employee_id eid = Inr (employee_id data) \<and>
     validate_full_name name = Inr (full_name data) \<and>
     validate_email mail = Inr (email data) \<and>
     validate_department dept = Inr (department data)"
  by (cases data) (auto simp: new_Employee_def split: sum.splits)

lemma new_Employee_idem:
  assumes "new_Employee eid name mail dept = Inr data"
  shows "new_Employee (employee_id data) (full_name data) (email data) (department data)
    = Inr data"
  using assms unfolding new_Employee_Inr
  by (auto dest: validate_employee_id_idem validate_full_name_idem validate_email_idem
      validate_department_idem)

subsection \<open>Marking attendance for an unknown employee\<close>

text \<open>
  Claim C7. When no stored employee has the external identifier of the payload,
  \<open>mark_attendance\<close> fails with the error 404 whose detail names the identifier, and
  the store after the call, both tables and both sequences, is the store before it.
  The same holds for the request whose validated body is that payload.
\<close>

theorem mark_attendance_unknown_employee:
  assumes "\<forall>e \<in> set (employees db). e_employee_id e \<noteq> att_employee_id data"
  shows "mark_attendance data db =
           (Inl (HTTPException 404
              (''Employee '' @ quoted (att_employee_id data) @ '' not found'')), db)
         \<and> (new_AttendanceRecord eid d st = Inr data \<longrightarrow>
              post_attendance eid d st db =
                (Inl (HTTPException 404
                   (''Employee '' @ quoted (att_employee_id data) @ '' not found'')), db))"
proof -
  from assms have "find (\<lambda>e. e_employee_id e = att_employee_id data) (employees db) = None"
    by (simp add: find_None_iff)
  then have "mark_attendance data db =
      (Inl (HTTPException 404
         (''Employee '' @ quoted (att_employee_id data) @ '' not found'')), db)"
    by (simp add: mark_attendance_def)
  then show ?thesis by (simp add: post_attendance_def)
qed

theorem mark_attendance_unknown_employee_witness:
  "''E2'' \<notin> set (map e_employee_id (employees example_database))
   \<and> new_AttendanceRecord '' E2'' ''2024-01-01'' ''Present''
       = Inr \<lparr>att_employee_id = ''E2'', att_date = ''2024-01-01'', att_status = ''Present''\<rparr>
   \<and> post_attendance '' E2'' ''2024-01-01'' ''Present'' example_database =
       (Inl (HTTPException 404 (''Employee '' @ quoted ''E2'' @ '' not found'')),
        example_database)"
proof -
  let ?data = "\<lparr>att_employee_id = ''E2'', att_date = ''2024-01-01'', att_status = ''Present''\<rparr>"
  have h: "\<forall>e \<in> set (employees example_database). e_employee_id e \<noteq> att_employee_id ?data"
    by (simp add: example_database_def)
  have v: "new_AttendanceRecord '' E2'' ''2024-01-01'' ''Present'' = Inr ?data"
    by code_simp
  from mark_attendance_unknown_employee [OF h, of "'' E2''" "''2024-01-01''" "''Present''"] v
  have "post_attendance '' E2'' ''2024-01-01'' ''Present'' example_database =
       (Inl (HTTPException 404 (''Employee '' @ quoted ''E2'' @ '' not found'')),
        example_database)"
    by simp
  moreover have "''E2'' \<notin> set (map e_employee_id (employees example_database))"
    by (simp add: example_database_def)
  ultimately show ?thesis using v by simp
qed

end
